theory Spec2Isabelle
  imports Main "HOL-Library.Sublist"
begin

section \<open>Python strings\<close>

text \<open>
  A Python \<^verbatim>\<open>str\<close> is modelled as a HOL \<^typ>\<open>string\<close>: a list of characters, each one
  of the code points 0..255. On these code points \<^verbatim>\<open>str.lower()\<close> works character by
  character: the capitals A..Z (65..90) and the Latin-1 capitals (192..214, 216..222) move up
  by 32, every other character stays.
\<close>

definition lower_char :: "char \<Rightarrow> char" where
  "lower_char c =
     (let n = (of_char c :: nat)
      in if (65 \<le> n \<and> n \<le> 90) \<or> (192 \<le> n \<and> n \<le> 214) \<or> (216 \<le> n \<and> n \<le> 222)
         then char_of (n + 32) else c)"

definition lower :: "string \<Rightarrow> string" where
  "lower text = map lower_char text"

text \<open>
  \<^verbatim>\<open>word in text\<close> on two strings: \<^verbatim>\<open>word\<close> starts at some position of \<^verbatim>\<open>text\<close>.
\<close>

primrec str_in :: "string \<Rightarrow> string \<Rightarrow> bool" where
  "str_in word [] = (word = [])"
| "str_in word (c # cs) = (prefix word (c # cs) \<or> str_in word cs)"

section \<open>The classifier (\<^verbatim>\<open>classify_governance_sentiment\<close>, lines 24-41)\<close>

text \<open>
  The function returns one of five label strings or \<^verbatim>\<open>None\<close>; \<^verbatim>\<open>any(... for word in [...])\<close>
  is \<^const>\<open>list_ex\<close> over the literal list. The \<^verbatim>\<open>if\<close>/\<^verbatim>\<open>elif\<close> chain on the category
  falls through to the final \<^verbatim>\<open>return None\<close> when the category is "Govt Analysis" and
  neither keyword list matches, and when the category is neither of the two names.
\<close>

definition classify_governance_sentiment :: "string \<Rightarrow> string \<Rightarrow> string option" where
  "classify_governance_sentiment text category =
     (if category = ''Govt Analysis'' then
        (if list_ex (\<lambda>word. str_in word (lower text))
              [''failure'', ''misgovernance'', ''corruption'', ''controversy'']
         then Some ''Misgovernance (TN Govt Only)''
         else if list_ex (\<lambda>word. str_in word (lower text))
              [''success'', ''achievement'', ''development'', ''growth'']
         then Some ''Good Governance (TN Govt Only)''
         else None)
      else if category = ''Protests Against Government'' then
        (if str_in ''dmk'' (lower text) \<or> str_in ''stalin'' (lower text)
              \<or> str_in ''tamil nadu government'' (lower text)
         then Some ''Anti TN State Government''
         else if str_in ''modi'' (lower text) \<or> str_in ''bjp government'' (lower text)
              \<or> str_in ''central government'' (lower text)
         then Some ''Anti Central Government''
         else Some ''General Protest'')
      else None)"

section \<open>Errors\<close>

text \<open>
  The exceptions the modelled code can raise. \<open>ValueError\<close> stands for a \<^verbatim>\<open>ValueError\<close>
  that is not a \<^verbatim>\<open>UnicodeDecodeError\<close> (in Python the latter is a subclass of the former, and
  line 75 catches the subclass only); \<open>OtherError\<close> is any other exception of a library call.
\<close>

datatype error = KeyError | ValueError | UnicodeDecodeError | OtherError string

section \<open>Dates and times\<close>

text \<open>
  A naive \<^verbatim>\<open>datetime\<close>: the calendar day is kept as its proleptic Gregorian day number
  (\<^verbatim>\<open>toordinal()\<close>), so that \<^verbatim>\<open>.date()\<close> is that number. \<^verbatim>\<open>a - b\<close> on two
  datetimes builds \<^verbatim>\<open>timedelta(days1 - days2, secs1 - secs2, us1 - us2)\<close>, and the
  constructor normalises the three fields so that \<open>0 \<le> seconds < 86400\<close> and
  \<open>0 \<le> microseconds < 1000000\<close>; \<^verbatim>\<open>.days\<close> may be negative.
\<close>

record datetime =
  ordinal :: int
  hour :: int
  minute :: int
  second :: int
  microsecond :: int

record timedelta =
  days :: int
  seconds :: int
  microseconds :: int

definition timedelta_new :: "int \<Rightarrow> int \<Rightarrow> int \<Rightarrow> timedelta" where
  "timedelta_new d s us =
     (let total = (d * 86400 + s) * 1000000 + us
      in \<lparr>days = total div 86400000000,
          seconds = (total mod 86400000000) div 1000000,
          microseconds = total mod 1000000\<rparr>)"

definition datetime_sub :: "datetime \<Rightarrow> datetime \<Rightarrow> timedelta" where
  "datetime_sub a b =
     timedelta_new (ordinal a - ordinal b)
       ((second a + minute a * 60 + hour a * 3600) - (second b + minute b * 60 + hour b * 3600))
       (microsecond a - microsecond b)"

definition date_of :: "datetime \<Rightarrow> int" where
  "date_of dt = ordinal dt"

section \<open>Tables\<close>

text \<open>
  A cell holds a string or a date. A Python dict literal is an association list. A
  \<^verbatim>\<open>DataFrame\<close> has an ordered list of column names and its rows, each aligned with the
  columns; a key missing from a dict leaves an empty cell (\<open>None\<close>).
\<close>

datatype cell = Str string | Date int

type_synonym pydict = "(string \<times> cell) list"

record dataframe =
  columns :: "string list"
  rows :: "cell option list list"

definition DataFrame :: "pydict list \<Rightarrow> string list \<Rightarrow> dataframe" where
  "DataFrame dicts cols = \<lparr>columns = cols, rows = map (\<lambda>d. map (map_of d) cols) dicts\<rparr>"

primrec column_index :: "string list \<Rightarrow> string \<Rightarrow> nat option" where
  "column_index [] name = None"
| "column_index (c # cs) name =
     (if c = name then Some 0 else map_option Suc (column_index cs name))"

text \<open>
  \<^verbatim>\<open>df[df[name].isin(values)]\<close> (lines 103 and 127): the rows whose cell in column
  \<^verbatim>\<open>name\<close> is one of the strings \<^verbatim>\<open>values\<close>, under the same columns; an unknown column
  name raises \<^verbatim>\<open>KeyError\<close>.
\<close>

definition select_isin :: "dataframe \<Rightarrow> string \<Rightarrow> string list \<Rightarrow> error + dataframe" where
  "select_isin df name values =
     (case column_index (columns df) name of
        None \<Rightarrow> Inl KeyError
      | Some i \<Rightarrow>
          Inr (df\<lparr>rows := filter (\<lambda>r. case r ! i of Some (Str s) \<Rightarrow> s \<in> set values | _ \<Rightarrow> False)
                              (rows df)\<rparr>))"

section \<open>Fetching (\<^verbatim>\<open>fetch_news\<close>, lines 45-69)\<close>

definition search_queries :: "string \<rightharpoonup> string list" where
  "search_queries =
     [''Govt Analysis'' \<mapsto>
        [''https://news.google.com/rss/search?q=Tamil+Nadu+government+failure+OR+misgovernance+OR+corruption+OR+controversy&hl=en-IN&gl=IN&ceid=IN:en'',
         ''https://news.google.com/rss/search?q=Tamil+Nadu+government+success+OR+achievement+OR+development+OR+growth&hl=en-IN&gl=IN&ceid=IN:en''],
      ''Protests Against Government'' \<mapsto>
        [''https://news.google.com/rss/search?q=Tamil+Nadu+protest+OR+strike+OR+agitation+OR+movement+OR+demonstration+OR+rally&hl=en-IN&gl=IN&ceid=IN:en'']]"

text \<open>A feed entry, with the three attributes the code reads.\<close>

record entry =
  published :: string
  title :: string
  link :: string

text \<open>
  The variables of the call, \<^verbatim>\<open>all_news\<close> and \<^verbatim>\<open>news_data\<close>, and the number of times the
  clock has been read so far in this call.
\<close>

record fetch_state =
  all_news :: "string set"
  news_data :: "pydict list"
  reads :: nat

text \<open>
  The world outside the function is passed in:
  \<^item> \<open>strptime\<close> is \<^verbatim>\<open>datetime.datetime.strptime(_, "%a, %d %b %Y %H:%M:%S %Z")\<close>; \<open>None\<close>
    is the \<^verbatim>\<open>ValueError\<close> it raises on a string that does not match the format;
  \<^item> \<open>utcnow k\<close> is what the \<open>k\<close>-th call of \<^verbatim>\<open>datetime.datetime.utcnow()\<close> returns; the
    half-second \<^verbatim>\<open>time.sleep\<close> of line 67 only changes these readings;
  \<^item> \<open>feedparser_parse url\<close> is \<^verbatim>\<open>feedparser.parse(url).entries\<close>.
  The body of the inner loop (lines 52-67) processes one entry.
\<close>

definition fetch_entry ::
  "(string \<Rightarrow> datetime option) \<Rightarrow> (nat \<Rightarrow> datetime) \<Rightarrow> string \<Rightarrow> int \<Rightarrow>
   fetch_state \<Rightarrow> entry \<Rightarrow> error + fetch_state" where
  "fetch_entry strptime utcnow selected_category days_filter st e =
     (case strptime (published e) of
        None \<Rightarrow> Inl ValueError
      | Some published_date \<Rightarrow>
          (let days_ago = days (datetime_sub (utcnow (reads st)) published_date);
               st1 = st\<lparr>reads := Suc (reads st)\<rparr>
           in if days_ago \<le> days_filter then
                (if title e \<notin> all_news st1 then
                   (case classify_governance_sentiment (title e) selected_category of
                      None \<Rightarrow> Inr st1
                    | Some sentiment_label \<Rightarrow>
                        if sentiment_label \<noteq> [] then
                          Inr (st1\<lparr>all_news := insert (title e) (all_news st1),
                                   news_data := news_data st1 @
                                     [[(''Category'', Str selected_category),
                                       (''Title'', Str (title e)),
                                       (''Published Date'', Date (date_of published_date)),
                                       (''URL'', Str (link e)),
                                       (''Sentiment'', Str sentiment_label)]]\<rparr>)
                        else Inr st1)
                 else Inr st1)
              else Inr st1))"

text \<open>The inner loop over the entries of one feed, and the outer loop over the URLs.\<close>

fun entries_loop ::
  "(string \<Rightarrow> datetime option) \<Rightarrow> (nat \<Rightarrow> datetime) \<Rightarrow> string \<Rightarrow> int \<Rightarrow>
   fetch_state \<Rightarrow> entry list \<Rightarrow> error + fetch_state" where
  "entries_loop strptime utcnow selected_category days_filter st [] = Inr st"
| "entries_loop strptime utcnow selected_category days_filter st (e # es) =
     (case fetch_entry strptime utcnow selected_category days_filter st e of
        Inl err \<Rightarrow> Inl err
      | Inr st' \<Rightarrow> entries_loop strptime utcnow selected_category days_filter st' es)"

fun urls_loop ::
  "(string \<Rightarrow> datetime option) \<Rightarrow> (nat \<Rightarrow> datetime) \<Rightarrow> (string \<Rightarrow> entry list) \<Rightarrow>
   string \<Rightarrow> int \<Rightarrow> fetch_state \<Rightarrow> string list \<Rightarrow> error + fetch_state" where
  "urls_loop strptime utcnow feedparser_parse selected_category days_filter st [] = Inr st"
| "urls_loop strptime utcnow feedparser_parse selected_category days_filter st (rss_url # urls) =
     (case entries_loop strptime utcnow selected_category days_filter st
             (feedparser_parse rss_url) of
        Inl err \<Rightarrow> Inl err
      | Inr st' \<Rightarrow>
          urls_loop strptime utcnow feedparser_parse selected_category days_filter st' urls)"

text \<open>
  The function: an unknown category raises \<^verbatim>\<open>KeyError\<close> at
  \<^verbatim>\<open>search_queries[selected_category]\<close>. The memoising decorator of line 44 returns the
  table of an earlier call with the same arguments and is not part of the function.
\<close>

definition fetch_news ::
  "(string \<Rightarrow> datetime option) \<Rightarrow> (nat \<Rightarrow> datetime) \<Rightarrow> (string \<Rightarrow> entry list) \<Rightarrow>
   string \<Rightarrow> int \<Rightarrow> error + dataframe" where
  "fetch_news strptime utcnow feedparser_parse selected_category days_filter =
     (case search_queries selected_category of
        None \<Rightarrow> Inl KeyError
      | Some urls \<Rightarrow>
          (case urls_loop strptime utcnow feedparser_parse selected_category days_filter
                  \<lparr>all_news = {}, news_data = [], reads = 0\<rparr> urls of
             Inl err \<Rightarrow> Inl err
           | Inr st \<Rightarrow>
               Inr (DataFrame (news_data st)
                      [''Category'', ''Title'', ''Published Date'', ''URL'', ''Sentiment''])))"

section \<open>Loading the correction file (lines 72-78)\<close>

definition feedback_file :: string where
  "feedback_file = ''corrected_labels.csv''"

text \<open>
  \<open>os_path_exists\<close> is \<^verbatim>\<open>os.path.exists\<close> and \<open>read_csv path encoding\<close> is the outcome of
  \<^verbatim>\<open>pd.read_csv(path, encoding=encoding)\<close>. The result is paired with the encodings that were
  tried, in order: one element for each call of \<^verbatim>\<open>pd.read_csv\<close>.
\<close>

definition load_feedback ::
  "(string \<Rightarrow> bool) \<Rightarrow> (string \<Rightarrow> string \<Rightarrow> error + dataframe) \<Rightarrow>
   string list \<times> (error + dataframe)" where
  "load_feedback os_path_exists read_csv =
     (if os_path_exists feedback_file then
        (case read_csv feedback_file ''utf-8-sig'' of
           Inl UnicodeDecodeError \<Rightarrow>
             ([''utf-8-sig'', ''ISO-8859-1''], read_csv feedback_file ''ISO-8859-1'')
         | r \<Rightarrow> ([''utf-8-sig''], r))
      else ([], Inr (DataFrame [] [''Title'', ''Corrected Sentiment''])))"

subsection \<open>The specification's wording: case-insensitive substring\<close>

text \<open>
  A keyword occurs in a title as a case-insensitive substring when some contiguous piece of
  the title is the keyword up to letter case. This definition follows the specification, not
  the code; \<open>str_in_lower_iff\<close> below relates the two.
\<close>

definition occurs_ignoring_case :: "string \<Rightarrow> string \<Rightarrow> bool" where
  "occurs_ignoring_case kw t \<longleftrightarrow> (\<exists>ps s ss. t = ps @ s @ ss \<and> lower s = lower kw)"

subsection \<open>The specification's wording: age in whole days\<close>

text \<open>
  The instant of a datetime in microseconds, and the age of a published instant: the number
  of whole days between it and the clock reading, rounded down.
\<close>

definition instant :: "datetime \<Rightarrow> int" where
  "instant dt =
     (((ordinal dt * 24 + hour dt) * 60 + minute dt) * 60 + second dt) * 1000000 + microsecond dt"

definition age_in_whole_days :: "datetime \<Rightarrow> datetime \<Rightarrow> int" where
  "age_in_whole_days now pub = (instant now - instant pub) div 86400000000"

subsection \<open>The specification's wording: surviving entries\<close>

text \<open>
  The entries a call processes, in processing order (the feeds of the topic's URLs, one after
  the other), each paired with the clock reading taken for it.
\<close>

primrec stamp :: "(nat \<Rightarrow> datetime) \<Rightarrow> nat \<Rightarrow> entry list \<Rightarrow> (datetime \<times> entry) list" where
  "stamp utcnow k [] = []"
| "stamp utcnow k (e # es) = (utcnow k, e) # stamp utcnow (Suc k) es"

definition processed ::
  "(nat \<Rightarrow> datetime) \<Rightarrow> (string \<Rightarrow> entry list) \<Rightarrow> string list \<Rightarrow> (datetime \<times> entry) list" where
  "processed utcnow feedparser_parse urls = stamp utcnow 0 (concat (map feedparser_parse urls))"

text \<open>An entry is recent when its age is at most the bound; it is labelled when the
  classifier gives its title a label.\<close>

definition recent :: "(string \<Rightarrow> datetime option) \<Rightarrow> int \<Rightarrow> datetime \<times> entry \<Rightarrow> bool" where
  "recent strptime max_age_days x =
     (case strptime (published (snd x)) of
        None \<Rightarrow> False
      | Some pub \<Rightarrow> age_in_whole_days (fst x) pub \<le> max_age_days)"

definition labelled :: "string \<Rightarrow> datetime \<times> entry \<Rightarrow> bool" where
  "labelled topic x =
     (case classify_governance_sentiment (title (snd x)) topic of
        None \<Rightarrow> False
      | Some l \<Rightarrow> l \<noteq> [])"

text \<open>Deduplication by exact title, the first occurrence staying.\<close>

fun first_by_title :: "(datetime \<times> entry) list \<Rightarrow> (datetime \<times> entry) list" where
  "first_by_title [] = []"
| "first_by_title (x # xs) =
     x # first_by_title (filter (\<lambda>y. title (snd y) \<noteq> title (snd x)) xs)"

text \<open>The surviving entries: date-filtered, deduplicated, successfully classified.\<close>

definition surviving ::
  "(string \<Rightarrow> datetime option) \<Rightarrow> string \<Rightarrow> int \<Rightarrow> (datetime \<times> entry) list \<Rightarrow>
   (datetime \<times> entry) list" where
  "surviving strptime topic max_age_days xs =
     filter (labelled topic) (first_by_title (filter (recent strptime max_age_days) xs))"

text \<open>
  The entries that pass the recency filter and get a label: the ones that compete for a
  place in the table.
\<close>

definition candidates ::
  "(string \<Rightarrow> datetime option) \<Rightarrow> string \<Rightarrow> int \<Rightarrow> (datetime \<times> entry) list \<Rightarrow>
   (datetime \<times> entry) list" where
  "candidates strptime topic max_age_days xs =
     filter (labelled topic) (filter (recent strptime max_age_days) xs)"

text \<open>
  The table row of a surviving entry, under the columns Category, Title, Published Date,
  URL, Sentiment (a surviving entry has a parsed date and a label).
\<close>

definition table_row ::
  "(string \<Rightarrow> datetime option) \<Rightarrow> string \<Rightarrow> datetime \<times> entry \<Rightarrow> cell option list" where
  "table_row strptime topic x =
     [Some (Str topic),
      Some (Str (title (snd x))),
      Some (Date (date_of (the (strptime (published (snd x)))))),
      Some (Str (link (snd x))),
      Some (Str (the (classify_governance_sentiment (title (snd x)) topic)))]"

section \<open>A sample world\<close>

text \<open>
  Concrete inputs for the worked examples below: a parser that knows six date strings, a
  clock that stands at 4 November 2026, 09:40:00 and advances by one second per reading,
  and four feeds.
\<close>

definition sample_strptime :: "string \<Rightarrow> datetime option" where
  "sample_strptime =
     map_of
       [(''Wed, 04 Nov 2026 06:00:00 GMT'',
           \<lparr>ordinal = 739924, hour = 6, minute = 0, second = 0, microsecond = 0\<rparr>),
        (''Tue, 03 Nov 2026 18:30:00 GMT'',
           \<lparr>ordinal = 739923, hour = 18, minute = 30, second = 0, microsecond = 0\<rparr>),
        (''Sun, 01 Nov 2026 23:15:00 GMT'',
           \<lparr>ordinal = 739921, hour = 23, minute = 15, second = 0, microsecond = 0\<rparr>),
        (''Mon, 05 Oct 2026 09:40:00 GMT'',
           \<lparr>ordinal = 739894, hour = 9, minute = 40, second = 0, microsecond = 0\<rparr>),
        (''Sun, 04 Oct 2026 09:40:00 GMT'',
           \<lparr>ordinal = 739893, hour = 9, minute = 40, second = 0, microsecond = 0\<rparr>),
        (''Mon, 27 Jul 2026 12:00:00 GMT'',
           \<lparr>ordinal = 739824, hour = 12, minute = 0, second = 0, microsecond = 0\<rparr>)]"

definition sample_utcnow :: "nat \<Rightarrow> datetime" where
  "sample_utcnow k =
     \<lparr>ordinal = 739924, hour = 9, minute = 40, second = int k, microsecond = 0\<rparr>"

definition sample_protest_feed :: "string \<Rightarrow> entry list" where
  "sample_protest_feed url =
     [\<lparr>published = ''Mon, 05 Oct 2026 09:40:00 GMT'',
       title = ''Farmers protest against Stalin and Modi'',
       link = ''https://example.org/1''\<rparr>,
      \<lparr>published = ''Sun, 04 Oct 2026 09:40:00 GMT'',
       title = ''Bus strike enters second day'',
       link = ''https://example.org/2''\<rparr>,
      \<lparr>published = ''Wed, 04 Nov 2026 06:00:00 GMT'',
       title = ''Farmers protest against Stalin and Modi'',
       link = ''https://example.org/3''\<rparr>,
      \<lparr>published = ''Tue, 03 Nov 2026 18:30:00 GMT'',
       title = ''Unions slam Central Government over fuel prices'',
       link = ''https://example.org/4''\<rparr>,
      \<lparr>published = ''Sun, 01 Nov 2026 23:15:00 GMT'',
       title = ''Students rally in Madurai'',
       link = ''https://example.org/5''\<rparr>]"

definition sample_govt_feed :: "string \<Rightarrow> entry list" where
  "sample_govt_feed url =
     [\<lparr>published = ''Tue, 03 Nov 2026 18:30:00 GMT'',
       title = ''TN govt hit by corruption scandal'',
       link = ''https://example.org/6''\<rparr>,
      \<lparr>published = ''Wed, 04 Nov 2026 06:00:00 GMT'',
       title = ''TN achieves record growth'',
       link = ''https://example.org/7''\<rparr>,
      \<lparr>published = ''Sun, 01 Nov 2026 23:15:00 GMT'',
       title = ''Chief minister visits temple'',
       link = ''https://example.org/8''\<rparr>]"

definition sample_old_first_feed :: "string \<Rightarrow> entry list" where
  "sample_old_first_feed url =
     [\<lparr>published = ''Mon, 27 Jul 2026 12:00:00 GMT'',
       title = ''Students rally in Madurai'',
       link = ''https://example.org/first''\<rparr>,
      \<lparr>published = ''Tue, 03 Nov 2026 18:30:00 GMT'',
       title = ''Students rally in Madurai'',
       link = ''https://example.org/second''\<rparr>]"

definition sample_bad_date_feed :: "string \<Rightarrow> entry list" where
  "sample_bad_date_feed url =
     [\<lparr>published = ''Tue, 03 Nov 2026 18:30:00 GMT'',
       title = ''Students rally in Madurai'',
       link = ''https://example.org/5''\<rparr>,
      \<lparr>published = ''2026-11-04T06:00:00Z'',
       title = ''Bus strike enters second day'',
       link = ''https://example.org/9''\<rparr>]"

section \<open>Properties of the classifier\<close>

lemma str_in_iff_sublist: "str_in word t \<longleftrightarrow> sublist word t"
  by (induction t) (simp_all add: sublist_Cons_right)

lemma str_in_iff: "str_in word t \<longleftrightarrow> (\<exists>ps ss. t = ps @ word @ ss)"
  by (simp add: str_in_iff_sublist sublist_def)

lemma lower_append: "lower (xs @ ys) = lower xs @ lower ys"
  by (simp add: lower_def)

lemma str_in_lower_iff: "str_in (lower kw) (lower t) \<longleftrightarrow> occurs_ignoring_case kw t"
proof
  assume "str_in (lower kw) (lower t)"
  then obtain ps ss where "map lower_char t = ps @ map lower_char kw @ ss"
    by (auto simp: str_in_iff lower_def)
  then have "\<exists>ps' rest. t = ps' @ rest \<and> ps = map lower_char ps'
      \<and> map lower_char kw @ ss = map lower_char rest"
    by (rule map_eq_append_conv [THEN iffD1])
  then obtain ps' rest where eq: "t = ps' @ rest"
      and r: "map lower_char rest = map lower_char kw @ ss"
    by auto
  from r have "\<exists>s ss'. rest = s @ ss' \<and> map lower_char kw = map lower_char s
      \<and> ss = map lower_char ss'"
    by (rule map_eq_append_conv [THEN iffD1])
  then obtain s ss' where "rest = s @ ss'" and "map lower_char s = map lower_char kw"
    by auto
  with eq show "occurs_ignoring_case kw t"
    by (auto simp: occurs_ignoring_case_def lower_def)
next
  assume "occurs_ignoring_case kw t"
  then obtain ps s ss where "t = ps @ s @ ss" and "lower s = lower kw"
    by (auto simp: occurs_ignoring_case_def)
  then have "lower t = lower ps @ lower kw @ lower ss"
    by (simp add: lower_append)
  then show "str_in (lower kw) (lower t)"
    unfolding str_in_iff by blast
qed

lemma keywords_lower:
  "lower ''failure'' = ''failure''" "lower ''misgovernance'' = ''misgovernance''"
  "lower ''corruption'' = ''corruption''" "lower ''controversy'' = ''controversy''"
  "lower ''success'' = ''success''" "lower ''achievement'' = ''achievement''"
  "lower ''development'' = ''development''" "lower ''growth'' = ''growth''"
  "lower ''dmk'' = ''dmk''" "lower ''stalin'' = ''stalin''"
  "lower ''tamil nadu government'' = ''tamil nadu government''"
  "lower ''modi'' = ''modi''" "lower ''bjp government'' = ''bjp government''"
  "lower ''central government'' = ''central government''"
  by code_simp+

lemma keyword_in_lower:
  "lower kw = kw \<Longrightarrow> str_in kw (lower t) \<longleftrightarrow> occurs_ignoring_case kw t"
  using str_in_lower_iff [of kw t] by simp

section \<open>Properties of the loops\<close>

lemma days_datetime_sub: "days (datetime_sub now pub) = age_in_whole_days now pub"
  unfolding datetime_sub_def timedelta_new_def age_in_whole_days_def instant_def Let_def
  by (simp add: algebra_simps)

lemma stamp_snd: "snd ` set (stamp utcnow k es) = set es"
  by (induction es arbitrary: k) auto

lemma filter_title_insert:
  "filter (\<lambda>y. title (snd y) \<noteq> a) (filter (\<lambda>y. title (snd y) \<notin> S) xs)
     = filter (\<lambda>y. title (snd y) \<notin> insert a S) xs"
  by (induction xs) auto

lemma candidates_Nil: "candidates strptime topic d [] = []"
  by (simp add: candidates_def)

lemma candidates_Cons:
  "candidates strptime topic d (x # xs) =
     (if recent strptime d x \<and> labelled topic x then x # candidates strptime topic d xs
      else candidates strptime topic d xs)"
  by (simp add: candidates_def)

text \<open>One pass of the loop body on an entry whose date parses.\<close>

lemma fetch_entry_step:
  assumes "strptime (published e) \<noteq> None"
  shows "fetch_entry strptime utcnow topic d st e =
     Inr (if recent strptime d (utcnow (reads st), e) \<and> labelled topic (utcnow (reads st), e)
             \<and> title e \<notin> all_news st
          then \<lparr>all_news = insert (title e) (all_news st),
                news_data = news_data st @
                  [[(''Category'', Str topic),
                    (''Title'', Str (title e)),
                    (''Published Date'', Date (date_of (the (strptime (published e))))),
                    (''URL'', Str (link e)),
                    (''Sentiment'', Str (the (classify_governance_sentiment (title e) topic)))]],
                reads = Suc (reads st)\<rparr>
          else st\<lparr>reads := Suc (reads st)\<rparr>)"
  using assms
  by (auto simp: fetch_entry_def Let_def recent_def labelled_def days_datetime_sub
      split: option.splits)

lemma entries_loop_error:
  "\<exists>e\<in>set es. strptime (published e) = None \<Longrightarrow>
     entries_loop strptime utcnow topic d st es = Inl ValueError"
proof (induction es arbitrary: st)
  case Nil
  then show ?case by simp
next
  case (Cons e es)
  show ?case
  proof (cases "strptime (published e)")
    case None
    then show ?thesis by (simp add: fetch_entry_def)
  next
    case (Some pub)
    with Cons.prems have "\<exists>e\<in>set es. strptime (published e) = None" by auto
    then show ?thesis
      using Cons.IH Some by (simp add: fetch_entry_step)
  qed
qed

lemma DataFrame_snoc:
  "DataFrame (ds @ [[(''Category'', c), (''Title'', t), (''Published Date'', p), (''URL'', u),
       (''Sentiment'', s)]]) [''Category'', ''Title'', ''Published Date'', ''URL'', ''Sentiment'']
   = (DataFrame ds [''Category'', ''Title'', ''Published Date'', ''URL'', ''Sentiment''])
       \<lparr>rows := rows (DataFrame ds
            [''Category'', ''Title'', ''Published Date'', ''URL'', ''Sentiment''])
          @ [[Some c, Some t, Some p, Some u, Some s]]\<rparr>"
  by (simp add: DataFrame_def)

lemma entries_loop_table:
  assumes "\<forall>e\<in>set es. strptime (published e) \<noteq> None"
  shows "\<exists>st'. entries_loop strptime utcnow topic d st es = Inr st'
     \<and> all_news st' = all_news st \<union> (title \<circ> snd) `
          set (candidates strptime topic d (stamp utcnow (reads st) es))
     \<and> rows (DataFrame (news_data st')
              [''Category'', ''Title'', ''Published Date'', ''URL'', ''Sentiment''])
        = rows (DataFrame (news_data st)
              [''Category'', ''Title'', ''Published Date'', ''URL'', ''Sentiment''])
          @ map (table_row strptime topic)
              (first_by_title (filter (\<lambda>y. title (snd y) \<notin> all_news st)
                 (candidates strptime topic d (stamp utcnow (reads st) es))))
     \<and> reads st' = reads st + length es"
  using assms
proof (induction es arbitrary: st)
  case Nil
  then show ?case by (simp add: candidates_Nil)
next
  case (Cons e es)
  then have pub: "strptime (published e) \<noteq> None" by simp
  from Cons.prems have rest: "\<forall>e\<in>set es. strptime (published e) \<noteq> None" by simp
  show ?case
    using pub Cons.IH [OF rest, of "\<lparr>all_news = insert (title e) (all_news st),
                news_data = news_data st @
                  [[(''Category'', Str topic),
                    (''Title'', Str (title e)),
                    (''Published Date'', Date (date_of (the (strptime (published e))))),
                    (''URL'', Str (link e)),
                    (''Sentiment'', Str (the (classify_governance_sentiment (title e) topic)))]],
                reads = Suc (reads st)\<rparr>"]
      Cons.IH [OF rest, of "st\<lparr>reads := Suc (reads st)\<rparr>"]
    by (auto simp: fetch_entry_step candidates_Cons filter_title_insert insert_absorb
        DataFrame_snoc table_row_def simp del: filter_filter)
qed

lemma entries_loop_append:
  "entries_loop strptime utcnow topic d st (xs @ ys) =
     (case entries_loop strptime utcnow topic d st xs of
        Inl err \<Rightarrow> Inl err
      | Inr st' \<Rightarrow> entries_loop strptime utcnow topic d st' ys)"
  by (induction xs arbitrary: st) (simp_all split: sum.splits)

lemma urls_loop_concat:
  "urls_loop strptime utcnow feedparser_parse topic d st urls =
     entries_loop strptime utcnow topic d st (concat (map feedparser_parse urls))"
  by (induction urls arbitrary: st) (simp_all add: entries_loop_append split: sum.splits)

text \<open>
  The two outcomes of a call on a known topic: with every date parsed, the table holds the
  first candidate of each title, in processing order; with one date that does not parse,
  the call raises.
\<close>

lemma fetch_news_table:
  assumes "search_queries topic = Some urls"
    and "\<forall>e\<in>set (concat (map feedparser_parse urls)). strptime (published e) \<noteq> None"
  shows "fetch_news strptime utcnow feedparser_parse topic d =
     Inr \<lparr>columns = [''Category'', ''Title'', ''Published Date'', ''URL'', ''Sentiment''],
          rows = map (table_row strptime topic)
                   (first_by_title
                      (candidates strptime topic d (processed utcnow feedparser_parse urls)))\<rparr>"
proof -
  from entries_loop_table [OF assms(2), of utcnow topic d
      "\<lparr>all_news = {}, news_data = [], reads = 0\<rparr>"]
  obtain st' where run: "entries_loop strptime utcnow topic d
        \<lparr>all_news = {}, news_data = [], reads = 0\<rparr> (concat (map feedparser_parse urls)) = Inr st'"
    and tab: "rows (DataFrame (news_data st')
              [''Category'', ''Title'', ''Published Date'', ''URL'', ''Sentiment''])
        = map (table_row strptime topic)
            (first_by_title (candidates strptime topic d (processed utcnow feedparser_parse urls)))"
    by (auto simp: processed_def DataFrame_def)
  have "columns (DataFrame (news_data st')
      [''Category'', ''Title'', ''Published Date'', ''URL'', ''Sentiment''])
      = [''Category'', ''Title'', ''Published Date'', ''URL'', ''Sentiment'']"
    by (simp add: DataFrame_def)
  with tab have "DataFrame (news_data st')
      [''Category'', ''Title'', ''Published Date'', ''URL'', ''Sentiment'']
      = \<lparr>columns = [''Category'', ''Title'', ''Published Date'', ''URL'', ''Sentiment''],
          rows = map (table_row strptime topic)
                   (first_by_title
                      (candidates strptime topic d (processed utcnow feedparser_parse urls)))\<rparr>"
    by (cases "DataFrame (news_data st')
      [''Category'', ''Title'', ''Published Date'', ''URL'', ''Sentiment'']") simp
  with run assms(1) show ?thesis
    by (simp add: fetch_news_def urls_loop_concat)
qed

lemma fetch_news_error:
  assumes "search_queries topic = Some urls"
    and "\<exists>e\<in>set (concat (map feedparser_parse urls)). strptime (published e) = None"
  shows "fetch_news strptime utcnow feedparser_parse topic d = Inl ValueError"
  using assms by (simp add: fetch_news_def urls_loop_concat entries_loop_error)

section \<open>Properties of deduplication and of the table\<close>

lemma first_by_title_subset: "set (first_by_title xs) \<subseteq> set xs"
  by (induction xs rule: first_by_title.induct) auto

lemma first_by_title_titles:
  "(title \<circ> snd) ` set (first_by_title xs) = (title \<circ> snd) ` set xs"
  by (induction xs rule: first_by_title.induct) (auto simp: image_iff)

lemma first_by_title_distinct: "distinct (map (title \<circ> snd) (first_by_title xs))"
proof (induction xs rule: first_by_title.induct)
  case 1
  then show ?case by simp
next
  case (2 x xs)
  have "title (snd x) \<notin> (title \<circ> snd) ` set (first_by_title
      (filter (\<lambda>y. title (snd y) \<noteq> title (snd x)) xs))"
    unfolding first_by_title_titles by auto
  with 2 show ?case by simp
qed

lemma filter_split_first:
  "filter P xs = pre @ x # post \<Longrightarrow>
     \<exists>pre' post'. xs = pre' @ x # post' \<and> (\<forall>y\<in>set pre'. y \<in> set pre \<or> \<not> P y)"
proof (induction xs arbitrary: pre)
  case Nil
  then show ?case by simp
next
  case (Cons a xs)
  show ?case
  proof (cases "P a")
    case False
    with Cons.prems have "filter P xs = pre @ x # post" by simp
    from Cons.IH [OF this] obtain pre' post'
      where "xs = pre' @ x # post'" and "\<forall>y\<in>set pre'. y \<in> set pre \<or> \<not> P y" by blast
    with False have "a # xs = (a # pre') @ x # post'
        \<and> (\<forall>y\<in>set (a # pre'). y \<in> set pre \<or> \<not> P y)" by simp
    then show ?thesis by blast
  next
    case True
    with Cons.prems have eq: "a # filter P xs = pre @ x # post" by simp
    show ?thesis
    proof (cases pre)
      case Nil
      with eq have "a # xs = [] @ x # xs \<and> (\<forall>y\<in>set []. y \<in> set pre \<or> \<not> P y)" by simp
      then show ?thesis by blast
    next
      case (Cons p pre2)
      with eq have ap: "a = p" and "filter P xs = pre2 @ x # post" by simp_all
      from Cons.IH [OF this(2)] obtain pre' post'
        where "xs = pre' @ x # post'" and "\<forall>y\<in>set pre'. y \<in> set pre2 \<or> \<not> P y" by blast
      with ap Cons have "a # xs = (a # pre') @ x # post'
          \<and> (\<forall>y\<in>set (a # pre'). y \<in> set pre \<or> \<not> P y)" by auto
      then show ?thesis by blast
    qed
  qed
qed

lemma first_by_title_first:
  "x \<in> set (first_by_title xs) \<Longrightarrow>
     \<exists>pre post. xs = pre @ x # post \<and> (\<forall>y\<in>set pre. title (snd y) \<noteq> title (snd x))"
proof (induction xs rule: first_by_title.induct)
  case 1
  then show ?case by simp
next
  case (2 x0 xs)
  show ?case
  proof (cases "x = x0")
    case True
    then have "x0 # xs = [] @ x # xs \<and> (\<forall>y\<in>set []. title (snd y) \<noteq> title (snd x))" by simp
    then show ?thesis by blast
  next
    case False
    with 2 obtain pre post
      where eq: "filter (\<lambda>y. title (snd y) \<noteq> title (snd x0)) xs = pre @ x # post"
        and pre: "\<forall>y\<in>set pre. title (snd y) \<noteq> title (snd x)"
      by auto
    from filter_split_first [OF eq] obtain pre' post' where xs: "xs = pre' @ x # post'"
      and pre': "\<forall>y\<in>set pre'. y \<in> set pre \<or> \<not> title (snd y) \<noteq> title (snd x0)"
      by blast
    have "x \<in> set (filter (\<lambda>y. title (snd y) \<noteq> title (snd x0)) xs)"
      unfolding eq by simp
    then have x: "title (snd x) \<noteq> title (snd x0)" by simp
    have "x0 # xs = (x0 # pre') @ x # post'"
      using xs by simp
    moreover have "\<forall>y\<in>set (x0 # pre'). title (snd y) \<noteq> title (snd x)"
      using pre pre' x by auto
    ultimately show ?thesis by blast
  qed
qed

lemma first_by_title_filter:
  assumes "\<And>x y. title (snd x) = title (snd y) \<Longrightarrow> P x = P y"
  shows "first_by_title (filter P xs) = filter P (first_by_title xs)"
proof (induction xs rule: first_by_title.induct)
  case 1
  then show ?case by simp
next
  case (2 x xs)
  show ?case
  proof (cases "P x")
    case True
    have "filter (\<lambda>y. title (snd y) \<noteq> title (snd x)) (filter P xs)
        = filter P (filter (\<lambda>y. title (snd y) \<noteq> title (snd x)) xs)"
      by (simp add: conj_commute)
    with True 2 show ?thesis by simp
  next
    case False
    have "P y \<Longrightarrow> title (snd y) \<noteq> title (snd x)" for y
      using False assms [of y x] by auto
    then have "filter P (filter (\<lambda>y. title (snd y) \<noteq> title (snd x)) xs) = filter P xs"
      by (induction xs) auto
    with False 2 show ?thesis by simp
  qed
qed

lemma surviving_candidates:
  "surviving strptime topic d xs = first_by_title (candidates strptime topic d xs)"
  unfolding surviving_def candidates_def
  by (rule first_by_title_filter [symmetric]) (simp add: labelled_def)

lemma classify_range:
  "classify_governance_sentiment t ''Govt Analysis'' = Some l \<Longrightarrow>
     l \<in> set [''Good Governance (TN Govt Only)'', ''Misgovernance (TN Govt Only)'']"
  "classify_governance_sentiment t ''Protests Against Government'' = Some l \<Longrightarrow>
     l \<in> set [''Anti TN State Government'', ''Anti Central Government'', ''General Protest'']"
  by (auto simp: classify_governance_sentiment_def split: if_splits)

lemma fetch_news_Inr:
  assumes "fetch_news strptime utcnow feedparser_parse topic d = Inr df"
  obtains urls where "search_queries topic = Some urls"
    and "\<forall>e\<in>set (concat (map feedparser_parse urls)). strptime (published e) \<noteq> None"
    and "df = \<lparr>columns = [''Category'', ''Title'', ''Published Date'', ''URL'', ''Sentiment''],
          rows = map (table_row strptime topic)
                   (first_by_title
                      (candidates strptime topic d (processed utcnow feedparser_parse urls)))\<rparr>"
proof -
  from assms obtain urls where q: "search_queries topic = Some urls"
    by (cases "search_queries topic") (simp_all add: fetch_news_def)
  have p: "\<forall>e\<in>set (concat (map feedparser_parse urls)). strptime (published e) \<noteq> None"
  proof (rule ccontr)
    assume "\<not> (\<forall>e\<in>set (concat (map feedparser_parse urls)). strptime (published e) \<noteq> None)"
    then have "\<exists>e\<in>set (concat (map feedparser_parse urls)). strptime (published e) = None"
      by simp
    from fetch_news_error [OF q this, of utcnow d] assms show False by simp
  qed
  from fetch_news_table [OF q p, of utcnow d] assms that [OF q p] show thesis by simp
qed

lemma candidates_labelled:
  "x \<in> set (first_by_title (candidates strptime topic d xs)) \<Longrightarrow>
     \<exists>l. classify_governance_sentiment (title (snd x)) topic = Some l"
  using first_by_title_subset [of "candidates strptime topic d xs"]
  by (auto simp: candidates_def labelled_def split: option.splits)

lemma select_isin_all:
  assumes "\<forall>x\<in>set S. \<exists>l\<in>set labels.
      classify_governance_sentiment (title (snd x)) topic = Some l"
  shows "select_isin
      \<lparr>columns = [''Category'', ''Title'', ''Published Date'', ''URL'', ''Sentiment''],
       rows = map (table_row strptime topic) S\<rparr> ''Sentiment'' labels
    = Inr \<lparr>columns = [''Category'', ''Title'', ''Published Date'', ''URL'', ''Sentiment''],
           rows = map (table_row strptime topic) S\<rparr>"
proof -
  have "filter (\<lambda>r. case r ! Suc (Suc (Suc (Suc 0))) of Some (Str s) \<Rightarrow> s \<in> set labels | _ \<Rightarrow> False)
      (map (table_row strptime topic) S) = map (table_row strptime topic) S"
    using assms by (auto simp: filter_id_conv table_row_def)
  then show ?thesis
    by (simp add: select_isin_def)
qed

lemma table_row_title:
  "table_row strptime topic x ! 1 = Some (Str (title (snd x)))"
  "table_row strptime topic x ! Suc 0 = Some (Str (title (snd x)))"
  by (simp_all add: table_row_def)

lemma candidates_set:
  "set (candidates strptime topic d xs) = {x \<in> set xs. recent strptime d x \<and> labelled topic x}"
  by (auto simp: candidates_def)

section \<open>The claims\<close>

text \<open>
  C1. For the topic "Govt Analysis" the classifier returns the Misgovernance label when one
  of failure, misgovernance, corruption, controversy occurs in the title as a
  case-insensitive substring; otherwise the Good Governance label when one of success,
  achievement, development, growth occurs so; otherwise no label. A title with keywords of
  both lists gets Misgovernance, and so does a title that contains "corruption" in any
  letter case.
\<close>

theorem classify_govt_analysis:
  "classify_governance_sentiment t ''Govt Analysis'' =
     (if \<exists>kw \<in> {''failure'', ''misgovernance'', ''corruption'', ''controversy''}.
           occurs_ignoring_case kw t
      then Some ''Misgovernance (TN Govt Only)''
      else if \<exists>kw \<in> {''success'', ''achievement'', ''development'', ''growth''}.
           occurs_ignoring_case kw t
      then Some ''Good Governance (TN Govt Only)''
      else None)
   \<and> ((\<exists>kw \<in> {''failure'', ''misgovernance'', ''corruption'', ''controversy''}.
           occurs_ignoring_case kw t)
        \<and> (\<exists>kw \<in> {''success'', ''achievement'', ''development'', ''growth''}.
           occurs_ignoring_case kw t)
      \<longrightarrow> classify_governance_sentiment t ''Govt Analysis'' = Some ''Misgovernance (TN Govt Only)'')
   \<and> (occurs_ignoring_case ''corruption'' t
      \<longrightarrow> classify_governance_sentiment t ''Govt Analysis'' = Some ''Misgovernance (TN Govt Only)'')"
  by (simp add: classify_governance_sentiment_def keyword_in_lower keywords_lower)

theorem classify_govt_analysis_witness:
  "occurs_ignoring_case ''corruption'' ''TN Govt hit by CORRUPTION scandal despite Growth''
   \<and> occurs_ignoring_case ''growth'' ''TN Govt hit by CORRUPTION scandal despite Growth''
   \<and> classify_governance_sentiment ''TN Govt hit by CORRUPTION scandal despite Growth''
        ''Govt Analysis'' = Some ''Misgovernance (TN Govt Only)''
   \<and> classify_governance_sentiment ''TN achieves record growth'' ''Govt Analysis''
        = Some ''Good Governance (TN Govt Only)''
   \<and> classify_governance_sentiment ''Chief minister visits temple'' ''Govt Analysis'' = None"
proof -
  have c: "occurs_ignoring_case ''corruption'' ''TN Govt hit by CORRUPTION scandal despite Growth''"
    unfolding str_in_lower_iff [symmetric] by code_simp
  have g: "occurs_ignoring_case ''growth'' ''TN Govt hit by CORRUPTION scandal despite Growth''"
    unfolding str_in_lower_iff [symmetric] by code_simp
  have g2: "occurs_ignoring_case ''growth'' ''TN achieves record growth''"
    unfolding str_in_lower_iff [symmetric] by code_simp
  have n2: "\<not> (\<exists>kw \<in> {''failure'', ''misgovernance'', ''corruption'', ''controversy''}.
           occurs_ignoring_case kw ''TN achieves record growth'')"
    unfolding str_in_lower_iff [symmetric] by code_simp
  have n3: "\<not> (\<exists>kw \<in> {''failure'', ''misgovernance'', ''corruption'', ''controversy''}.
           occurs_ignoring_case kw ''Chief minister visits temple'')"
      "\<not> (\<exists>kw \<in> {''success'', ''achievement'', ''development'', ''growth''}.
           occurs_ignoring_case kw ''Chief minister visits temple'')"
    unfolding str_in_lower_iff [symmetric] by code_simp+
  show ?thesis
    using c g g2 n2 n3
      classify_govt_analysis [of "''TN Govt hit by CORRUPTION scandal despite Growth''"]
      classify_govt_analysis [of "''TN achieves record growth''"]
      classify_govt_analysis [of "''Chief minister visits temple''"]
    by simp
qed

text \<open>
  C2. For the topic "Protests Against Government" the classifier returns the Anti State
  Government label when one of dmk, stalin, "tamil nadu government" occurs in the title as a
  case-insensitive substring (checked first: a title with both "stalin" and "modi" gets this
  label); otherwise the Anti Central Government label when one of modi, "bjp government",
  "central government" occurs so; otherwise General Protest. The result is never the
  no-label outcome.
\<close>

theorem classify_protests:
  "classify_governance_sentiment t ''Protests Against Government'' =
     (if occurs_ignoring_case ''dmk'' t \<or> occurs_ignoring_case ''stalin'' t
         \<or> occurs_ignoring_case ''tamil nadu government'' t
      then Some ''Anti TN State Government''
      else if occurs_ignoring_case ''modi'' t \<or> occurs_ignoring_case ''bjp government'' t
         \<or> occurs_ignoring_case ''central government'' t
      then Some ''Anti Central Government''
      else Some ''General Protest'')
   \<and> (occurs_ignoring_case ''stalin'' t \<and> occurs_ignoring_case ''modi'' t
      \<longrightarrow> classify_governance_sentiment t ''Protests Against Government''
            = Some ''Anti TN State Government'')
   \<and> classify_governance_sentiment t ''Protests Against Government'' \<noteq> None"
  by (simp add: classify_governance_sentiment_def keyword_in_lower keywords_lower)

theorem classify_protests_witness:
  "occurs_ignoring_case ''stalin'' ''Farmers protest against Stalin and Modi''
   \<and> occurs_ignoring_case ''modi'' ''Farmers protest against Stalin and Modi''
   \<and> classify_governance_sentiment ''Farmers protest against Stalin and Modi''
        ''Protests Against Government'' = Some ''Anti TN State Government''
   \<and> classify_governance_sentiment ''Unions slam Central Government over fuel prices''
        ''Protests Against Government'' = Some ''Anti Central Government''
   \<and> classify_governance_sentiment ''Students rally in Madurai''
        ''Protests Against Government'' = Some ''General Protest''"
proof -
  have s: "occurs_ignoring_case ''stalin'' ''Farmers protest against Stalin and Modi''"
    and m: "occurs_ignoring_case ''modi'' ''Farmers protest against Stalin and Modi''"
    unfolding str_in_lower_iff [symmetric] by code_simp+
  have c: "\<not> (occurs_ignoring_case ''dmk'' ''Unions slam Central Government over fuel prices''
        \<or> occurs_ignoring_case ''stalin'' ''Unions slam Central Government over fuel prices''
        \<or> occurs_ignoring_case ''tamil nadu government''
             ''Unions slam Central Government over fuel prices'')"
      "occurs_ignoring_case ''central government''
         ''Unions slam Central Government over fuel prices''"
    unfolding str_in_lower_iff [symmetric] by code_simp+
  have g: "\<not> (occurs_ignoring_case ''dmk'' ''Students rally in Madurai''
        \<or> occurs_ignoring_case ''stalin'' ''Students rally in Madurai''
        \<or> occurs_ignoring_case ''tamil nadu government'' ''Students rally in Madurai'')"
      "\<not> (occurs_ignoring_case ''modi'' ''Students rally in Madurai''
        \<or> occurs_ignoring_case ''bjp government'' ''Students rally in Madurai''
        \<or> occurs_ignoring_case ''central government'' ''Students rally in Madurai'')"
    unfolding str_in_lower_iff [symmetric] by code_simp+
  show ?thesis
    using s m c g
      classify_protests [of "''Farmers protest against Stalin and Modi''"]
      classify_protests [of "''Unions slam Central Government over fuel prices''"]
      classify_protests [of "''Students rally in Madurai''"]
    by simp
qed

text \<open>
  C10. For every title and every topic other than "Govt Analysis" and "Protests Against
  Government" the classifier returns no label, and it returns no label for a "Govt Analysis"
  title in which none of the eight keywords occurs.
\<close>

theorem classify_no_label:
  "(topic \<noteq> ''Govt Analysis'' \<and> topic \<noteq> ''Protests Against Government''
      \<longrightarrow> classify_governance_sentiment t topic = None)
   \<and> ((\<forall>kw \<in> {''failure'', ''misgovernance'', ''corruption'', ''controversy'',
                 ''success'', ''achievement'', ''development'', ''growth''}.
          \<not> occurs_ignoring_case kw t)
      \<longrightarrow> classify_governance_sentiment t ''Govt Analysis'' = None)"
  by (simp add: classify_governance_sentiment_def keyword_in_lower keywords_lower)

theorem classify_no_label_witness:
  "''Sports'' \<noteq> ''Govt Analysis'' \<and> ''Sports'' \<noteq> ''Protests Against Government''
   \<and> classify_governance_sentiment ''Stalin faces corruption charge'' ''Sports'' = None
   \<and> \<not> (\<exists>kw \<in> {''failure'', ''misgovernance'', ''corruption'', ''controversy'',
                 ''success'', ''achievement'', ''development'', ''growth''}.
          occurs_ignoring_case kw ''Chief minister visits temple'')
   \<and> classify_governance_sentiment ''Chief minister visits temple'' ''Govt Analysis'' = None"
proof -
  have t: "''Sports'' \<noteq> ''Govt Analysis'' \<and> ''Sports'' \<noteq> ''Protests Against Government''"
    by simp
  have n: "\<not> (\<exists>kw \<in> {''failure'', ''misgovernance'', ''corruption'', ''controversy'',
                 ''success'', ''achievement'', ''development'', ''growth''}.
          occurs_ignoring_case kw ''Chief minister visits temple'')"
    unfolding str_in_lower_iff [symmetric] by code_simp
  show ?thesis
    using t n classify_no_label [of "''Sports''" "''Stalin faces corruption charge''"]
      classify_no_label [of "''Sports''" "''Chief minister visits temple''"]
    by simp
qed

text \<open>
  C6. Loading the correction file: when the file is absent the result is the empty table
  with the columns Title and Corrected Sentiment, no error is raised and nothing is read;
  when the file exists and reading it with the primary encoding raises a decoding error,
  exactly one further read is made, with the fallback encoding, and its outcome is the
  outcome of the load, so an error of the fallback read propagates. Any other outcome of
  the first read is final.
\<close>

theorem load_feedback_cases:
  "(\<not> os_path_exists feedback_file \<longrightarrow>
      load_feedback os_path_exists read_csv
        = ([], Inr \<lparr>columns = [''Title'', ''Corrected Sentiment''], rows = []\<rparr>))
   \<and> (os_path_exists feedback_file
        \<and> read_csv feedback_file ''utf-8-sig'' = Inl UnicodeDecodeError \<longrightarrow>
      load_feedback os_path_exists read_csv
        = ([''utf-8-sig'', ''ISO-8859-1''], read_csv feedback_file ''ISO-8859-1''))
   \<and> (os_path_exists feedback_file
        \<and> read_csv feedback_file ''utf-8-sig'' = Inl UnicodeDecodeError
        \<and> read_csv feedback_file ''ISO-8859-1'' = Inl err \<longrightarrow>
      snd (load_feedback os_path_exists read_csv) = Inl err)
   \<and> (os_path_exists feedback_file
        \<and> read_csv feedback_file ''utf-8-sig'' \<noteq> Inl UnicodeDecodeError \<longrightarrow>
      load_feedback os_path_exists read_csv
        = ([''utf-8-sig''], read_csv feedback_file ''utf-8-sig''))"
  by (simp add: load_feedback_def DataFrame_def split: sum.splits error.splits)

theorem load_feedback_cases_witness:
  "load_feedback (\<lambda>path. False) (\<lambda>path encoding. Inl (OtherError ''FileNotFoundError''))
     = ([], Inr \<lparr>columns = [''Title'', ''Corrected Sentiment''], rows = []\<rparr>)
   \<and> load_feedback (\<lambda>path. True)
       (\<lambda>path encoding. if encoding = ''utf-8-sig'' then Inl UnicodeDecodeError
          else Inr \<lparr>columns = [''Title'', ''Corrected Sentiment''],
                    rows = [[Some (Str ''Students rally in Madurai''),
                             Some (Str ''General Protest'')]]\<rparr>)
     = ([''utf-8-sig'', ''ISO-8859-1''],
        Inr \<lparr>columns = [''Title'', ''Corrected Sentiment''],
             rows = [[Some (Str ''Students rally in Madurai''), Some (Str ''General Protest'')]]\<rparr>)
   \<and> snd (load_feedback (\<lambda>path. True)
       (\<lambda>path encoding. if encoding = ''utf-8-sig'' then Inl UnicodeDecodeError
          else Inl (OtherError ''ParserError'')))
     = Inl (OtherError ''ParserError'')
   \<and> load_feedback (\<lambda>path. True) (\<lambda>path encoding. Inl (OtherError ''EmptyDataError''))
     = ([''utf-8-sig''], Inl (OtherError ''EmptyDataError''))"
  using
    load_feedback_cases [of "\<lambda>path. False" "\<lambda>path encoding. Inl (OtherError ''FileNotFoundError'')"]
    load_feedback_cases [of "\<lambda>path. True"
      "\<lambda>path encoding. if encoding = ''utf-8-sig'' then Inl UnicodeDecodeError
          else Inr \<lparr>columns = [''Title'', ''Corrected Sentiment''],
                    rows = [[Some (Str ''Students rally in Madurai''),
                             Some (Str ''General Protest'')]]\<rparr>"]
    load_feedback_cases [of "\<lambda>path. True"
      "\<lambda>path encoding. if encoding = ''utf-8-sig'' then Inl UnicodeDecodeError
          else Inl (OtherError ''ParserError'')" "OtherError ''ParserError''"]
    load_feedback_cases [of "\<lambda>path. True" "\<lambda>path encoding. Inl (OtherError ''EmptyDataError'')"]
  by simp

text \<open>
  C3. In a call on a known topic in which every date parses, the recency filter keeps an
  entry exactly when its age in whole days, measured against the clock reading taken for
  it, is at most the bound: every row of the table comes from such an entry, every such
  entry that gets a label has its title in the table, and a title none of whose entries is
  that recent is absent. An entry published exactly the bound in days before the reading
  passes the filter; one published a day earlier does not.
\<close>

theorem fetch_news_recency:
  assumes "search_queries topic = Some urls"
    and "\<forall>e\<in>set (concat (map feedparser_parse urls)). strptime (published e) \<noteq> None"
  shows "(\<exists>df. fetch_news strptime utcnow feedparser_parse topic d = Inr df
      \<and> (\<forall>r\<in>set (rows df). \<exists>x\<in>set (processed utcnow feedparser_parse urls).
            r = table_row strptime topic x \<and> recent strptime d x)
      \<and> (\<forall>x\<in>set (processed utcnow feedparser_parse urls).
            recent strptime d x \<and> labelled topic x \<longrightarrow>
            Some (Str (title (snd x))) \<in> (\<lambda>r. r ! 1) ` set (rows df))
      \<and> (\<forall>t. (\<forall>x\<in>set (processed utcnow feedparser_parse urls).
                 title (snd x) = t \<longrightarrow> \<not> recent strptime d x) \<longrightarrow>
            Some (Str t) \<notin> (\<lambda>r. r ! 1) ` set (rows df)))
    \<and> (\<forall>x pub. strptime (published (snd x)) = Some pub \<longrightarrow>
          (instant (fst x) - instant pub = d * 86400000000 \<longrightarrow> recent strptime d x)
        \<and> (instant (fst x) - instant pub = (d + 1) * 86400000000 \<longrightarrow> \<not> recent strptime d x))"
proof -
  let ?P = "processed utcnow feedparser_parse urls"
  let ?C = "candidates strptime topic d ?P"
  let ?S = "first_by_title ?C"
  let ?df = "\<lparr>columns = [''Category'', ''Title'', ''Published Date'', ''URL'', ''Sentiment''],
          rows = map (table_row strptime topic) ?S\<rparr>"
  have run: "fetch_news strptime utcnow feedparser_parse topic d = Inr ?df"
    by (rule fetch_news_table [OF assms])
  have sub: "set ?S \<subseteq> {x \<in> set ?P. recent strptime d x \<and> labelled topic x}"
    using first_by_title_subset [of ?C] by (simp add: candidates_set)
  have a: "\<forall>r\<in>set (rows ?df). \<exists>x\<in>set ?P. r = table_row strptime topic x \<and> recent strptime d x"
    using sub by auto
  have b: "\<forall>x\<in>set ?P. recent strptime d x \<and> labelled topic x \<longrightarrow>
      Some (Str (title (snd x))) \<in> (\<lambda>r. r ! 1) ` set (rows ?df)"
  proof (intro ballI impI)
    fix x assume "x \<in> set ?P" and "recent strptime d x \<and> labelled topic x"
    then have "x \<in> set ?C" by (simp add: candidates_set)
    then have "(title \<circ> snd) x \<in> (title \<circ> snd) ` set ?S"
      unfolding first_by_title_titles by (rule imageI)
    then obtain y where y: "y \<in> set ?S" and "(title \<circ> snd) x = (title \<circ> snd) y"
      by (rule imageE)
    then have "Some (Str (title (snd x))) = table_row strptime topic y ! 1"
      by (simp add: table_row_title)
    moreover from y have "table_row strptime topic y \<in> set (rows ?df)"
      by simp
    ultimately show "Some (Str (title (snd x))) \<in> (\<lambda>r. r ! 1) ` set (rows ?df)"
      by (rule image_eqI)
  qed
  have c: "\<forall>t. (\<forall>x\<in>set ?P. title (snd x) = t \<longrightarrow> \<not> recent strptime d x) \<longrightarrow>
      Some (Str t) \<notin> (\<lambda>r. r ! 1) ` set (rows ?df)"
  proof (intro allI impI notI)
    fix t assume none: "\<forall>x\<in>set ?P. title (snd x) = t \<longrightarrow> \<not> recent strptime d x"
    assume "Some (Str t) \<in> (\<lambda>r. r ! 1) ` set (rows ?df)"
    then obtain r where "r \<in> set (rows ?df)" and r: "Some (Str t) = r ! 1"
      by (rule imageE)
    then obtain y where y: "y \<in> set ?S" and "r = table_row strptime topic y"
      by auto
    with r have "title (snd y) = t" by (simp add: table_row_title)
    moreover from y sub have "y \<in> set ?P" and "recent strptime d y" by auto
    ultimately show False using none by blast
  qed
  have main: "\<exists>df. fetch_news strptime utcnow feedparser_parse topic d = Inr df
      \<and> (\<forall>r\<in>set (rows df). \<exists>x\<in>set ?P. r = table_row strptime topic x \<and> recent strptime d x)
      \<and> (\<forall>x\<in>set ?P. recent strptime d x \<and> labelled topic x \<longrightarrow>
            Some (Str (title (snd x))) \<in> (\<lambda>r. r ! 1) ` set (rows df))
      \<and> (\<forall>t. (\<forall>x\<in>set ?P. title (snd x) = t \<longrightarrow> \<not> recent strptime d x) \<longrightarrow>
            Some (Str t) \<notin> (\<lambda>r. r ! 1) ` set (rows df))"
  proof (intro exI conjI)
    show "fetch_news strptime utcnow feedparser_parse topic d = Inr ?df" by (rule run)
  qed (rule a b c)+
  have bd: "\<forall>x pub. strptime (published (snd x)) = Some pub \<longrightarrow>
          (instant (fst x) - instant pub = d * 86400000000 \<longrightarrow> recent strptime d x)
        \<and> (instant (fst x) - instant pub = (d + 1) * 86400000000 \<longrightarrow> \<not> recent strptime d x)"
    by (simp add: recent_def age_in_whole_days_def)
  from main bd show ?thesis by (rule conjI)
qed

theorem fetch_news_recency_witness:
  "instant (sample_utcnow 0)
     - instant \<lparr>ordinal = 739894, hour = 9, minute = 40, second = 0, microsecond = 0\<rparr>
     = 30 * 86400000000
   \<and> (\<exists>df. fetch_news sample_strptime sample_utcnow sample_protest_feed
          ''Protests Against Government'' 30 = Inr df
      \<and> Some (Str ''Farmers protest against Stalin and Modi'') \<in> (\<lambda>r. r ! 1) ` set (rows df)
      \<and> Some (Str ''Bus strike enters second day'') \<notin> (\<lambda>r. r ! 1) ` set (rows df))"
proof -
  let ?urls = "the (search_queries ''Protests Against Government'')"
  let ?x = "(sample_utcnow 0,
      \<lparr>published = ''Mon, 05 Oct 2026 09:40:00 GMT'',
       title = ''Farmers protest against Stalin and Modi'',
       link = ''https://example.org/1''\<rparr>)"
  have q: "search_queries ''Protests Against Government'' = Some ?urls"
    by (simp add: search_queries_def)
  have p: "\<forall>e\<in>set (concat (map sample_protest_feed ?urls)).
      sample_strptime (published e) \<noteq> None"
    by (simp add: search_queries_def sample_protest_feed_def sample_strptime_def)
  have i: "instant (sample_utcnow 0)
     - instant \<lparr>ordinal = 739894, hour = 9, minute = 40, second = 0, microsecond = 0\<rparr>
     = 30 * 86400000000"
    by (simp add: instant_def sample_utcnow_def)
  have x: "?x \<in> set (processed sample_utcnow sample_protest_feed ?urls)"
    by (simp add: processed_def search_queries_def sample_protest_feed_def)
  have s: "sample_strptime (published (snd ?x))
      = Some \<lparr>ordinal = 739894, hour = 9, minute = 40, second = 0, microsecond = 0\<rparr>"
    by (simp add: sample_strptime_def)
  have l: "labelled ''Protests Against Government'' ?x"
    by code_simp
  have old: "\<forall>x\<in>set (processed sample_utcnow sample_protest_feed ?urls).
      title (snd x) = ''Bus strike enters second day'' \<longrightarrow> \<not> recent sample_strptime 30 x"
    by code_simp
  from fetch_news_recency [where strptime = sample_strptime and utcnow = sample_utcnow
      and feedparser_parse = sample_protest_feed and d = 30, OF q p]
  obtain df where run: "fetch_news sample_strptime sample_utcnow sample_protest_feed
          ''Protests Against Government'' 30 = Inr df"
    and kept: "\<forall>x\<in>set (processed sample_utcnow sample_protest_feed ?urls).
            recent sample_strptime 30 x \<and> labelled ''Protests Against Government'' x \<longrightarrow>
            Some (Str (title (snd x))) \<in> (\<lambda>r. r ! 1) ` set (rows df)"
    and dropped: "\<forall>t. (\<forall>x\<in>set (processed sample_utcnow sample_protest_feed ?urls).
                 title (snd x) = t \<longrightarrow> \<not> recent sample_strptime 30 x) \<longrightarrow>
            Some (Str t) \<notin> (\<lambda>r. r ! 1) ` set (rows df)"
    and boundary: "\<forall>x pub. sample_strptime (published (snd x)) = Some pub \<longrightarrow>
          (instant (fst x) - instant pub = 30 * 86400000000 \<longrightarrow> recent sample_strptime 30 x)
        \<and> (instant (fst x) - instant pub = (30 + 1) * 86400000000
              \<longrightarrow> \<not> recent sample_strptime 30 x)"
    by blast
  from boundary s i have r: "recent sample_strptime 30 ?x"
    by (metis fst_conv)
  from kept x r l have a: "Some (Str ''Farmers protest against Stalin and Modi'')
      \<in> (\<lambda>r. r ! 1) ` set (rows df)"
    by fastforce
  from dropped old have b: "Some (Str ''Bus strike enters second day'')
      \<notin> (\<lambda>r. r ! 1) ` set (rows df)"
    by blast
  from i run a b show ?thesis by blast
qed

text \<open>
  C4, as amended. In a call on a known topic in which every date parses, the rows of the
  table are pairwise distinct by title, and among the entries that pass the recency filter
  and get a label, the first of each title is the one retained: every row comes from an
  entry with no earlier such entry of the same title, and every such entry has its title
  in the table. The set of seen titles starts empty in every call, so the table depends on
  the call's own feed entries only.
\<close>

theorem fetch_news_first_candidate:
  assumes "search_queries topic = Some urls"
    and "\<forall>e\<in>set (concat (map feedparser_parse urls)). strptime (published e) \<noteq> None"
  shows "\<exists>S. fetch_news strptime utcnow feedparser_parse topic d
        = Inr \<lparr>columns = [''Category'', ''Title'', ''Published Date'', ''URL'', ''Sentiment''],
               rows = map (table_row strptime topic) S\<rparr>
      \<and> distinct (map (\<lambda>r. r ! 1) (map (table_row strptime topic) S))
      \<and> (\<forall>x\<in>set S. \<exists>pre post.
            candidates strptime topic d (processed utcnow feedparser_parse urls) = pre @ x # post
            \<and> (\<forall>y\<in>set pre. title (snd y) \<noteq> title (snd x)))
      \<and> (\<forall>y\<in>set (candidates strptime topic d (processed utcnow feedparser_parse urls)).
            \<exists>x\<in>set S. title (snd x) = title (snd y))"
proof -
  let ?C = "candidates strptime topic d (processed utcnow feedparser_parse urls)"
  let ?S = "first_by_title ?C"
  have run: "fetch_news strptime utcnow feedparser_parse topic d
        = Inr \<lparr>columns = [''Category'', ''Title'', ''Published Date'', ''URL'', ''Sentiment''],
               rows = map (table_row strptime topic) ?S\<rparr>"
    by (rule fetch_news_table [OF assms])
  have eq: "map (\<lambda>r. r ! 1) (map (table_row strptime topic) ?S)
      = map (\<lambda>t. Some (Str t)) (map (title \<circ> snd) ?S)"
    by (simp add: table_row_title comp_def)
  have d: "distinct (map (\<lambda>r. r ! 1) (map (table_row strptime topic) ?S))"
    unfolding eq
    by (rule distinct_map [THEN iffD2]) (simp add: first_by_title_distinct inj_on_def)
  have f: "\<forall>x\<in>set ?S. \<exists>pre post. ?C = pre @ x # post
      \<and> (\<forall>y\<in>set pre. title (snd y) \<noteq> title (snd x))"
    using first_by_title_first by blast
  have t: "\<forall>y\<in>set ?C. \<exists>x\<in>set ?S. title (snd x) = title (snd y)"
  proof
    fix y assume "y \<in> set ?C"
    then have "(title \<circ> snd) y \<in> (title \<circ> snd) ` set ?S"
      unfolding first_by_title_titles by (rule imageI)
    then obtain x where "x \<in> set ?S" and "(title \<circ> snd) y = (title \<circ> snd) x"
      by (rule imageE)
    then have "x \<in> set ?S \<and> title (snd x) = title (snd y)" by simp
    then show "\<exists>x\<in>set ?S. title (snd x) = title (snd y)" by blast
  qed
  show ?thesis
  proof (intro exI conjI)
    show "fetch_news strptime utcnow feedparser_parse topic d
        = Inr \<lparr>columns = [''Category'', ''Title'', ''Published Date'', ''URL'', ''Sentiment''],
               rows = map (table_row strptime topic) ?S\<rparr>"
      by (rule run)
  qed (rule d f t)+
qed

theorem fetch_news_first_candidate_witness:
  "(\<exists>S. fetch_news sample_strptime sample_utcnow sample_protest_feed
          ''Protests Against Government'' 30
        = Inr \<lparr>columns = [''Category'', ''Title'', ''Published Date'', ''URL'', ''Sentiment''],
               rows = map (table_row sample_strptime ''Protests Against Government'') S\<rparr>
      \<and> distinct (map (\<lambda>r. r ! 1)
           (map (table_row sample_strptime ''Protests Against Government'') S))
      \<and> (\<forall>x\<in>set S. \<exists>pre post.
            candidates sample_strptime ''Protests Against Government'' 30
              (processed sample_utcnow sample_protest_feed
                 (the (search_queries ''Protests Against Government''))) = pre @ x # post
            \<and> (\<forall>y\<in>set pre. title (snd y) \<noteq> title (snd x)))
      \<and> (\<forall>y\<in>set (candidates sample_strptime ''Protests Against Government'' 30
              (processed sample_utcnow sample_protest_feed
                 (the (search_queries ''Protests Against Government'')))).
            \<exists>x\<in>set S. title (snd x) = title (snd y)))
   \<and> map (title \<circ> snd) (candidates sample_strptime ''Protests Against Government'' 30
        (processed sample_utcnow sample_protest_feed
           (the (search_queries ''Protests Against Government''))))
      = [''Farmers protest against Stalin and Modi'', ''Farmers protest against Stalin and Modi'',
         ''Unions slam Central Government over fuel prices'', ''Students rally in Madurai'']
   \<and> (\<exists>df. fetch_news sample_strptime sample_utcnow sample_protest_feed
          ''Protests Against Government'' 30 = Inr df
        \<and> map (\<lambda>r. (r ! 1, r ! 3)) (rows df)
           = [(Some (Str ''Farmers protest against Stalin and Modi''),
               Some (Str ''https://example.org/1'')),
              (Some (Str ''Unions slam Central Government over fuel prices''),
               Some (Str ''https://example.org/4'')),
              (Some (Str ''Students rally in Madurai''), Some (Str ''https://example.org/5''))])"
proof -
  have q: "search_queries ''Protests Against Government''
      = Some (the (search_queries ''Protests Against Government''))"
    by (simp add: search_queries_def)
  have p: "\<forall>e\<in>set (concat (map sample_protest_feed
      (the (search_queries ''Protests Against Government'')))).
      sample_strptime (published e) \<noteq> None"
    by (simp add: search_queries_def sample_protest_feed_def sample_strptime_def)
  have c: "map (title \<circ> snd) (candidates sample_strptime ''Protests Against Government'' 30
        (processed sample_utcnow sample_protest_feed
           (the (search_queries ''Protests Against Government''))))
      = [''Farmers protest against Stalin and Modi'', ''Farmers protest against Stalin and Modi'',
         ''Unions slam Central Government over fuel prices'', ''Students rally in Madurai'']"
    by code_simp
  have t: "fetch_news sample_strptime sample_utcnow sample_protest_feed
      ''Protests Against Government'' 30
   = Inr \<lparr>columns = [''Category'', ''Title'', ''Published Date'', ''URL'', ''Sentiment''],
          rows =
            [[Some (Str ''Protests Against Government''),
              Some (Str ''Farmers protest against Stalin and Modi''),
              Some (Date 739894), Some (Str ''https://example.org/1''),
              Some (Str ''Anti TN State Government'')],
             [Some (Str ''Protests Against Government''),
              Some (Str ''Unions slam Central Government over fuel prices''),
              Some (Date 739923), Some (Str ''https://example.org/4''),
              Some (Str ''Anti Central Government'')],
             [Some (Str ''Protests Against Government''),
              Some (Str ''Students rally in Madurai''),
              Some (Date 739921), Some (Str ''https://example.org/5''),
              Some (Str ''General Protest'')]]\<rparr>"
    by code_simp
  have e: "\<exists>df. fetch_news sample_strptime sample_utcnow sample_protest_feed
          ''Protests Against Government'' 30 = Inr df
        \<and> map (\<lambda>r. (r ! 1, r ! 3)) (rows df)
           = [(Some (Str ''Farmers protest against Stalin and Modi''),
               Some (Str ''https://example.org/1'')),
              (Some (Str ''Unions slam Central Government over fuel prices''),
               Some (Str ''https://example.org/4'')),
              (Some (Str ''Students rally in Madurai''), Some (Str ''https://example.org/5''))]"
    unfolding t by simp
  from fetch_news_first_candidate [where strptime = sample_strptime and utcnow = sample_utcnow
      and feedparser_parse = sample_protest_feed and d = 30, OF q p] c e
  show ?thesis by (intro conjI)
qed

text \<open>
  C4 as stated fails: of two entries with the same title, the first is not the one retained
  when it is older than the bound and the second is not. In the sample feed the first
  "Students rally in Madurai" is a hundred days old, and the table holds the second.
\<close>

theorem fetch_news_keeps_later_duplicate:
  "sample_old_first_feed ''any''
     = [\<lparr>published = ''Mon, 27 Jul 2026 12:00:00 GMT'', title = ''Students rally in Madurai'',
         link = ''https://example.org/first''\<rparr>,
        \<lparr>published = ''Tue, 03 Nov 2026 18:30:00 GMT'', title = ''Students rally in Madurai'',
         link = ''https://example.org/second''\<rparr>]
   \<and> fetch_news sample_strptime sample_utcnow sample_old_first_feed
        ''Protests Against Government'' 30
      = Inr \<lparr>columns = [''Category'', ''Title'', ''Published Date'', ''URL'', ''Sentiment''],
             rows = [[Some (Str ''Protests Against Government''),
                      Some (Str ''Students rally in Madurai''), Some (Date 739923),
                      Some (Str ''https://example.org/second''),
                      Some (Str ''General Protest'')]]\<rparr>"
  by code_simp

text \<open>
  C5. In a call on a known topic, when the published string of any entry of the feeds does
  not parse, the call raises the parser's error and returns no table, whatever the other
  entries are.
\<close>

theorem fetch_news_bad_date:
  assumes "search_queries topic = Some urls"
    and "e \<in> set (concat (map feedparser_parse urls))"
    and "strptime (published e) = None"
  shows "fetch_news strptime utcnow feedparser_parse topic d = Inl ValueError"
  using fetch_news_error [OF assms(1), of feedparser_parse strptime utcnow d] assms(2,3) by blast

theorem fetch_news_bad_date_witness:
  "\<lparr>published = ''2026-11-04T06:00:00Z'', title = ''Bus strike enters second day'',
     link = ''https://example.org/9''\<rparr>
     \<in> set (concat (map sample_bad_date_feed
           (the (search_queries ''Protests Against Government''))))
   \<and> sample_strptime ''2026-11-04T06:00:00Z'' = None
   \<and> fetch_news sample_strptime sample_utcnow sample_bad_date_feed
        ''Protests Against Government'' 30 = Inl ValueError
   \<and> fetch_news sample_strptime sample_utcnow (\<lambda>url. take 1 (sample_bad_date_feed url))
        ''Protests Against Government'' 30
      = Inr \<lparr>columns = [''Category'', ''Title'', ''Published Date'', ''URL'', ''Sentiment''],
             rows = [[Some (Str ''Protests Against Government''),
                      Some (Str ''Students rally in Madurai''), Some (Date 739923),
                      Some (Str ''https://example.org/5''), Some (Str ''General Protest'')]]\<rparr>"
proof -
  have q: "search_queries ''Protests Against Government''
      = Some (the (search_queries ''Protests Against Government''))"
    by (simp add: search_queries_def)
  have m: "\<lparr>published = ''2026-11-04T06:00:00Z'', title = ''Bus strike enters second day'',
     link = ''https://example.org/9''\<rparr>
     \<in> set (concat (map sample_bad_date_feed
           (the (search_queries ''Protests Against Government''))))"
    by (simp add: search_queries_def sample_bad_date_feed_def)
  have n: "sample_strptime (published \<lparr>published = ''2026-11-04T06:00:00Z'',
     title = ''Bus strike enters second day'', link = ''https://example.org/9''\<rparr>) = None"
    by (simp add: sample_strptime_def)
  have one: "fetch_news sample_strptime sample_utcnow (\<lambda>url. take 1 (sample_bad_date_feed url))
        ''Protests Against Government'' 30
      = Inr \<lparr>columns = [''Category'', ''Title'', ''Published Date'', ''URL'', ''Sentiment''],
             rows = [[Some (Str ''Protests Against Government''),
                      Some (Str ''Students rally in Madurai''), Some (Date 739923),
                      Some (Str ''https://example.org/5''), Some (Str ''General Protest'')]]\<rparr>"
    by code_simp
  show ?thesis
    using m n one
      fetch_news_bad_date [where strptime = sample_strptime and utcnow = sample_utcnow
        and feedparser_parse = sample_bad_date_feed and d = 30, OF q m n]
    by simp
qed

text \<open>
  C8. In a call on a known topic in which every date parses, the table has the columns
  Category, Title, Published Date, URL, Sentiment, in this order, and one row for each
  surviving entry (date-filtered, deduplicated, successfully classified), in processing
  order; no sorting takes place.
\<close>

theorem fetch_news_rows:
  assumes "search_queries topic = Some urls"
    and "\<forall>e\<in>set (concat (map feedparser_parse urls)). strptime (published e) \<noteq> None"
  shows "fetch_news strptime utcnow feedparser_parse topic d =
     Inr \<lparr>columns = [''Category'', ''Title'', ''Published Date'', ''URL'', ''Sentiment''],
          rows = map (table_row strptime topic)
                   (surviving strptime topic d (processed utcnow feedparser_parse urls))\<rparr>"
  using fetch_news_table [OF assms] by (simp add: surviving_candidates)

theorem fetch_news_rows_witness:
  "fetch_news sample_strptime sample_utcnow sample_protest_feed
      ''Protests Against Government'' 30
   = Inr \<lparr>columns = [''Category'', ''Title'', ''Published Date'', ''URL'', ''Sentiment''],
          rows =
            [[Some (Str ''Protests Against Government''),
              Some (Str ''Farmers protest against Stalin and Modi''),
              Some (Date 739894), Some (Str ''https://example.org/1''),
              Some (Str ''Anti TN State Government'')],
             [Some (Str ''Protests Against Government''),
              Some (Str ''Unions slam Central Government over fuel prices''),
              Some (Date 739923), Some (Str ''https://example.org/4''),
              Some (Str ''Anti Central Government'')],
             [Some (Str ''Protests Against Government''),
              Some (Str ''Students rally in Madurai''),
              Some (Date 739921), Some (Str ''https://example.org/5''),
              Some (Str ''General Protest'')]]\<rparr>
   \<and> fetch_news sample_strptime sample_utcnow sample_govt_feed ''Govt Analysis'' 30
   = Inr \<lparr>columns = [''Category'', ''Title'', ''Published Date'', ''URL'', ''Sentiment''],
          rows =
            [[Some (Str ''Govt Analysis''), Some (Str ''TN govt hit by corruption scandal''),
              Some (Date 739923), Some (Str ''https://example.org/6''),
              Some (Str ''Misgovernance (TN Govt Only)'')],
             [Some (Str ''Govt Analysis''), Some (Str ''TN achieves record growth''),
              Some (Date 739924), Some (Str ''https://example.org/7''),
              Some (Str ''Good Governance (TN Govt Only)'')]]\<rparr>"
proof -
  have q1: "search_queries ''Protests Against Government''
      = Some (the (search_queries ''Protests Against Government''))"
    by (simp add: search_queries_def)
  have p1: "\<forall>e\<in>set (concat (map sample_protest_feed
      (the (search_queries ''Protests Against Government'')))).
      sample_strptime (published e) \<noteq> None"
    by (simp add: search_queries_def sample_protest_feed_def sample_strptime_def)
  have e1: "map (table_row sample_strptime ''Protests Against Government'')
      (surviving sample_strptime ''Protests Against Government'' 30
         (processed sample_utcnow sample_protest_feed
            (the (search_queries ''Protests Against Government''))))
    = [[Some (Str ''Protests Against Government''),
              Some (Str ''Farmers protest against Stalin and Modi''),
              Some (Date 739894), Some (Str ''https://example.org/1''),
              Some (Str ''Anti TN State Government'')],
             [Some (Str ''Protests Against Government''),
              Some (Str ''Unions slam Central Government over fuel prices''),
              Some (Date 739923), Some (Str ''https://example.org/4''),
              Some (Str ''Anti Central Government'')],
             [Some (Str ''Protests Against Government''),
              Some (Str ''Students rally in Madurai''),
              Some (Date 739921), Some (Str ''https://example.org/5''),
              Some (Str ''General Protest'')]]"
    by code_simp
  have q2: "search_queries ''Govt Analysis'' = Some (the (search_queries ''Govt Analysis''))"
    by (simp add: search_queries_def)
  have p2: "\<forall>e\<in>set (concat (map sample_govt_feed (the (search_queries ''Govt Analysis'')))).
      sample_strptime (published e) \<noteq> None"
    by (simp add: search_queries_def sample_govt_feed_def sample_strptime_def)
  have e2: "map (table_row sample_strptime ''Govt Analysis'')
      (surviving sample_strptime ''Govt Analysis'' 30
         (processed sample_utcnow sample_govt_feed (the (search_queries ''Govt Analysis''))))
    = [[Some (Str ''Govt Analysis''), Some (Str ''TN govt hit by corruption scandal''),
              Some (Date 739923), Some (Str ''https://example.org/6''),
              Some (Str ''Misgovernance (TN Govt Only)'')],
             [Some (Str ''Govt Analysis''), Some (Str ''TN achieves record growth''),
              Some (Date 739924), Some (Str ''https://example.org/7''),
              Some (Str ''Good Governance (TN Govt Only)'')]]"
    by code_simp
  show ?thesis
    using fetch_news_rows [where strptime = sample_strptime and utcnow = sample_utcnow
        and feedparser_parse = sample_protest_feed and d = 30, OF q1 p1]
      fetch_news_rows [where strptime = sample_strptime and utcnow = sample_utcnow
        and feedparser_parse = sample_govt_feed and d = 30, OF q2 p2]
    unfolding e1 e2 by simp
qed

text \<open>
  C9. Every row of a table returned for "Govt Analysis" carries one of the two labels of
  that topic, every row of a table returned for "Protests Against Government" one of the
  three labels of that topic, and the selection of lines 103 and 127, which keeps the rows
  whose Sentiment is one of the topic's labels, returns the table unchanged.
\<close>

theorem fetch_news_labels:
  "(fetch_news strptime utcnow feedparser_parse ''Govt Analysis'' d = Inr df \<longrightarrow>
      (\<forall>r\<in>set (rows df). \<exists>l\<in>set [''Good Governance (TN Govt Only)'',
            ''Misgovernance (TN Govt Only)'']. r ! 4 = Some (Str l))
      \<and> select_isin df ''Sentiment''
          [''Good Governance (TN Govt Only)'', ''Misgovernance (TN Govt Only)''] = Inr df)
   \<and> (fetch_news strptime utcnow feedparser_parse ''Protests Against Government'' d = Inr df \<longrightarrow>
      (\<forall>r\<in>set (rows df). \<exists>l\<in>set [''Anti TN State Government'', ''Anti Central Government'',
            ''General Protest'']. r ! 4 = Some (Str l))
      \<and> select_isin df ''Sentiment''
          [''Anti TN State Government'', ''Anti Central Government'', ''General Protest'']
        = Inr df)"
proof (intro conjI impI)
  assume "fetch_news strptime utcnow feedparser_parse ''Govt Analysis'' d = Inr df"
  then obtain urls where df: "df =
      \<lparr>columns = [''Category'', ''Title'', ''Published Date'', ''URL'', ''Sentiment''],
       rows = map (table_row strptime ''Govt Analysis'')
                (first_by_title (candidates strptime ''Govt Analysis'' d
                   (processed utcnow feedparser_parse urls)))\<rparr>"
    by (rule fetch_news_Inr)
  have l: "\<forall>x\<in>set (first_by_title (candidates strptime ''Govt Analysis'' d
                   (processed utcnow feedparser_parse urls))).
      \<exists>l\<in>set [''Good Governance (TN Govt Only)'', ''Misgovernance (TN Govt Only)''].
        classify_governance_sentiment (title (snd x)) ''Govt Analysis'' = Some l"
    using candidates_labelled classify_range(1) by blast
  then show "\<forall>r\<in>set (rows df). \<exists>l\<in>set [''Good Governance (TN Govt Only)'',
            ''Misgovernance (TN Govt Only)'']. r ! 4 = Some (Str l)"
    unfolding df by (auto simp: table_row_def)
  from select_isin_all [OF l] show "select_isin df ''Sentiment''
      [''Good Governance (TN Govt Only)'', ''Misgovernance (TN Govt Only)''] = Inr df"
    unfolding df .
next
  assume "fetch_news strptime utcnow feedparser_parse ''Protests Against Government'' d = Inr df"
  then obtain urls where df: "df =
      \<lparr>columns = [''Category'', ''Title'', ''Published Date'', ''URL'', ''Sentiment''],
       rows = map (table_row strptime ''Protests Against Government'')
                (first_by_title (candidates strptime ''Protests Against Government'' d
                   (processed utcnow feedparser_parse urls)))\<rparr>"
    by (rule fetch_news_Inr)
  have l: "\<forall>x\<in>set (first_by_title (candidates strptime ''Protests Against Government'' d
                   (processed utcnow feedparser_parse urls))).
      \<exists>l\<in>set [''Anti TN State Government'', ''Anti Central Government'', ''General Protest''].
        classify_governance_sentiment (title (snd x)) ''Protests Against Government'' = Some l"
    using candidates_labelled classify_range(2) by blast
  then show "\<forall>r\<in>set (rows df). \<exists>l\<in>set [''Anti TN State Government'',
      ''Anti Central Government'', ''General Protest'']. r ! 4 = Some (Str l)"
    unfolding df by (auto simp: table_row_def)
  from select_isin_all [OF l] show "select_isin df ''Sentiment''
      [''Anti TN State Government'', ''Anti Central Government'', ''General Protest'']
        = Inr df"
    unfolding df .
qed

theorem fetch_news_labels_witness:
  "(\<exists>df. fetch_news sample_strptime sample_utcnow sample_govt_feed ''Govt Analysis'' 30 = Inr df
      \<and> map (\<lambda>r. r ! 4) (rows df) = [Some (Str ''Misgovernance (TN Govt Only)''),
           Some (Str ''Good Governance (TN Govt Only)'')]
      \<and> select_isin df ''Sentiment''
          [''Good Governance (TN Govt Only)'', ''Misgovernance (TN Govt Only)''] = Inr df)
   \<and> (\<exists>df. fetch_news sample_strptime sample_utcnow sample_protest_feed
          ''Protests Against Government'' 30 = Inr df
      \<and> map (\<lambda>r. r ! 4) (rows df) = [Some (Str ''Anti TN State Government''),
           Some (Str ''Anti Central Government''), Some (Str ''General Protest'')]
      \<and> select_isin df ''Sentiment''
          [''Anti TN State Government'', ''Anti Central Government'', ''General Protest'']
        = Inr df)"
proof -
  let ?g = "\<lparr>columns = [''Category'', ''Title'', ''Published Date'', ''URL'', ''Sentiment''],
          rows =
            [[Some (Str ''Govt Analysis''), Some (Str ''TN govt hit by corruption scandal''),
              Some (Date 739923), Some (Str ''https://example.org/6''),
              Some (Str ''Misgovernance (TN Govt Only)'')],
             [Some (Str ''Govt Analysis''), Some (Str ''TN achieves record growth''),
              Some (Date 739924), Some (Str ''https://example.org/7''),
              Some (Str ''Good Governance (TN Govt Only)'')]]\<rparr>"
  let ?p = "\<lparr>columns = [''Category'', ''Title'', ''Published Date'', ''URL'', ''Sentiment''],
          rows =
            [[Some (Str ''Protests Against Government''),
              Some (Str ''Farmers protest against Stalin and Modi''),
              Some (Date 739894), Some (Str ''https://example.org/1''),
              Some (Str ''Anti TN State Government'')],
             [Some (Str ''Protests Against Government''),
              Some (Str ''Unions slam Central Government over fuel prices''),
              Some (Date 739923), Some (Str ''https://example.org/4''),
              Some (Str ''Anti Central Government'')],
             [Some (Str ''Protests Against Government''),
              Some (Str ''Students rally in Madurai''),
              Some (Date 739921), Some (Str ''https://example.org/5''),
              Some (Str ''General Protest'')]]\<rparr>"
  have g: "fetch_news sample_strptime sample_utcnow sample_govt_feed ''Govt Analysis'' 30
      = Inr ?g"
    by code_simp
  have p: "fetch_news sample_strptime sample_utcnow sample_protest_feed
      ''Protests Against Government'' 30 = Inr ?p"
    by code_simp
  from g fetch_news_labels [where strptime = sample_strptime and utcnow = sample_utcnow
      and feedparser_parse = sample_govt_feed and d = 30 and df = ?g]
  have "select_isin ?g ''Sentiment''
      [''Good Governance (TN Govt Only)'', ''Misgovernance (TN Govt Only)''] = Inr ?g"
    by blast
  with g have first: "\<exists>df. fetch_news sample_strptime sample_utcnow sample_govt_feed
        ''Govt Analysis'' 30 = Inr df
      \<and> map (\<lambda>r. r ! 4) (rows df) = [Some (Str ''Misgovernance (TN Govt Only)''),
           Some (Str ''Good Governance (TN Govt Only)'')]
      \<and> select_isin df ''Sentiment''
          [''Good Governance (TN Govt Only)'', ''Misgovernance (TN Govt Only)''] = Inr df"
    by (intro exI [of _ ?g]) simp
  from p fetch_news_labels [where strptime = sample_strptime and utcnow = sample_utcnow
      and feedparser_parse = sample_protest_feed and d = 30 and df = ?p]
  have "select_isin ?p ''Sentiment''
      [''Anti TN State Government'', ''Anti Central Government'', ''General Protest'']
      = Inr ?p"
    by blast
  with p have second: "\<exists>df. fetch_news sample_strptime sample_utcnow sample_protest_feed
          ''Protests Against Government'' 30 = Inr df
      \<and> map (\<lambda>r. r ! 4) (rows df) = [Some (Str ''Anti TN State Government''),
           Some (Str ''Anti Central Government''), Some (Str ''General Protest'')]
      \<and> select_isin df ''Sentiment''
          [''Anti TN State Government'', ''Anti Central Government'', ''General Protest'']
        = Inr df"
    by (intro exI [of _ ?p]) simp
  from first second show ?thesis by (rule conjI)
qed

end
